theory Spec2Isabelle
  imports Complex_Main "HOL-Library.Sublist"
begin

section \<open>The ad-preview renderer of the RealTimeCustomization and AIAdGenerator components\<close>

text \<open>
  The model follows \<^verbatim>\<open>frontend/src/components/AIAdGenerator.tsx\<close>: the helper
  \<^verbatim>\<open>wrapText\<close> of the AIAdGenerator component and the functions
  \<^verbatim>\<open>updatePreview\<close>, \<^verbatim>\<open>getCanvasDimensions\<close>, \<^verbatim>\<open>calculateLayout\<close>,
  \<^verbatim>\<open>getContentVariation\<close>, \<^verbatim>\<open>drawText\<close>, \<^verbatim>\<open>drawButton\<close> and
  \<^verbatim>\<open>roundRect\<close> of the RealTimeCustomization component.

  JavaScript numbers are modelled as reals: the sliders deliver small integers, the surface
  sizes are even integers, and the renderer only adds, subtracts, halves and compares them.
  Strings are byte lists; the only non-ASCII literal of the source, the fire emoji of the
  fourth headline variant, is written as its four UTF-8 bytes.
\<close>

subsection \<open>Strings: \<^verbatim>\<open>split(' ')\<close> and \<^verbatim>\<open>join(' ')\<close>\<close>

text \<open>
  \<^verbatim>\<open>text.split(' ')\<close> cuts at every single space; the empty string gives one empty
  word, and two spaces in a row give an empty word between them. The result is never
  empty, so the last branch of the \<open>case\<close> below is never taken.
\<close>

fun split_space :: "string \<Rightarrow> string list" where
  "split_space [] = [[]]"
| "split_space (c # cs) =
     (if c = CHR '' '' then [] # split_space cs
      else (case split_space cs of
              w # ws \<Rightarrow> (c # w) # ws
            | [] \<Rightarrow> [[c]]))"

text \<open>\<^verbatim>\<open>lines.join(' ')\<close>: the lines with one space between neighbours.\<close>

fun join_space :: "string list \<Rightarrow> string" where
  "join_space [] = []"
| "join_space [l] = l"
| "join_space (l # l' # ls) = l @ CHR '' '' # join_space (l' # ls)"

subsection \<open>The greedy word wrap\<close>

text \<open>
  The \<^verbatim>\<open>for\<close> loop shared by \<^verbatim>\<open>wrapText\<close> and \<^verbatim>\<open>drawText\<close>:
  \<^verbatim>\<open>
    for (let i = 1; i < words.length; i++) {
      const word = words[i];
      const width = ctx.measureText(currentLine + ' ' + word).width;
      if (width < maxWidth) { currentLine += ' ' + word; }
      else { lines.push(currentLine); currentLine = word; }
    }
    lines.push(currentLine);
  \<close>
  The first argument is \<^verbatim>\<open>ctx.measureText(_).width\<close> under the font in force, the
  last one the words not yet visited.
\<close>

fun wrap_loop :: "(string \<Rightarrow> real) \<Rightarrow> real \<Rightarrow> string list \<Rightarrow> string \<Rightarrow> string list \<Rightarrow> string list" where
  "wrap_loop measureText maxWidth lines currentLine [] = lines @ [currentLine]"
| "wrap_loop measureText maxWidth lines currentLine (word # rest) =
     (if measureText (currentLine @ '' '' @ word) < maxWidth
      then wrap_loop measureText maxWidth lines (currentLine @ '' '' @ word) rest
      else wrap_loop measureText maxWidth (lines @ [currentLine]) word rest)"

text \<open>
  \<^verbatim>\<open>wrapText(ctx, text, maxWidth)\<close> of the AIAdGenerator component. \<^verbatim>\<open>words[0]\<close>
  always exists because \<^verbatim>\<open>split\<close> never returns an empty array.
\<close>

definition wrapText :: "(string \<Rightarrow> real) \<Rightarrow> string \<Rightarrow> real \<Rightarrow> string list" where
  "wrapText measureText text maxWidth =
     (case split_space text of
        [] \<Rightarrow> []
      | currentLine # rest \<Rightarrow> wrap_loop measureText maxWidth [] currentLine rest)"

subsection \<open>Content, customizations and the variant pools\<close>

record ad_content =
  headline :: string
  description :: string
  callToAction :: string

record ad =
  ad_id :: string
  content :: ad_content

text \<open>
  The component state \<^verbatim>\<open>customizations\<close>. Colours, font family, layout, alignment and
  animation type are strings in the source and stay strings here; the three variation
  indices are the integers the sliders (step 1) deliver.
\<close>

record customizations =
  backgroundColor :: string
  textColor :: string
  accentColor :: string
  fontSize :: real
  fontFamily :: string
  borderRadius :: real
  shadow :: real
  layout :: string
  imagePosition :: string
  textAlignment :: string
  padding :: real
  animationType :: string
  animationDuration :: real
  autoPlay :: bool
  headlineVariation :: int
  descriptionVariation :: int
  ctaVariation :: int
  realTimeOptimization :: bool
  audienceAdaptation :: bool
  performanceTuning :: bool

text \<open>The argument of \<^verbatim>\<open>useState\<close>: the customizations the component starts with.\<close>

definition initial_customizations :: customizations where
  "initial_customizations =
     \<lparr> backgroundColor = ''#ffffff'', textColor = ''#000000'', accentColor = ''#007bff'',
       fontSize = 16, fontFamily = ''Inter'', borderRadius = 8, shadow = 2,
       layout = ''standard'', imagePosition = ''left'', textAlignment = ''left'',
       padding = 20, animationType = ''none'', animationDuration = 1000, autoPlay = False,
       headlineVariation = 0, descriptionVariation = 0, ctaVariation = 0,
       realTimeOptimization = True, audienceAdaptation = True, performanceTuning = True \<rparr>"

datatype content_type = Headline | Description | Cta

text \<open>The object literal \<^verbatim>\<open>variations\<close> of \<^verbatim>\<open>getContentVariation\<close>.\<close>

fun variations :: "content_type \<Rightarrow> string \<Rightarrow> string list" where
  "variations Headline originalText =
     [originalText,
      originalText @ '' - Limited Time!'',
      ''New: '' @ originalText,
      originalText @ '' '' @ [CHR 0xF0, CHR 0x9F, CHR 0x94, CHR 0xA5]]"
| "variations Description originalText =
     [originalText,
      originalText @ '' Act now!'',
      ''Exclusive: '' @ originalText,
      originalText @ '' Don't miss out!'']"
| "variations Cta originalText =
     [originalText, ''Get Started'', ''Learn More'', ''Try Now'', ''Shop Today'']"

text \<open>\<^verbatim>\<open>customizations[`${type}Variation`]\<close>\<close>

fun variationIndex :: "customizations \<Rightarrow> content_type \<Rightarrow> int" where
  "variationIndex cz Headline = headlineVariation cz"
| "variationIndex cz Description = descriptionVariation cz"
| "variationIndex cz Cta = ctaVariation cz"

text \<open>
  Reading a JavaScript array at an integer: outside \<open>0 .. length - 1\<close> the value is
  \<^verbatim>\<open>undefined\<close>, here \<open>None\<close>; nothing is thrown.
\<close>

definition js_index :: "'a list \<Rightarrow> int \<Rightarrow> 'a option" where
  "js_index xs i = (if 0 \<le> i \<and> i < int (length xs) then Some (xs ! nat i) else None)"

text \<open>\<^verbatim>\<open>a || b\<close> on strings: \<^verbatim>\<open>undefined\<close> and the empty string are falsy.\<close>

definition js_or :: "string option \<Rightarrow> string \<Rightarrow> string" where
  "js_or a b = (case a of None \<Rightarrow> b | Some s \<Rightarrow> if s = [] then b else s)"

definition getContentVariation :: "customizations \<Rightarrow> content_type \<Rightarrow> string \<Rightarrow> string" where
  "getContentVariation cz type originalText =
     js_or (js_index (variations type originalText) (variationIndex cz type)) originalText"

subsection \<open>Surface sizes and layout\<close>

text \<open>\<^verbatim>\<open>getCanvasDimensions\<close> returns \<^verbatim>\<open>{ width, height }\<close>, here a pair.\<close>

definition getCanvasDimensions :: "string \<Rightarrow> real \<times> real" where
  "getCanvasDimensions mode =
     (if mode = ''mobile'' then (320, 400)
      else if mode = ''tablet'' then (768, 500)
      else (600, 400))"

record text_region =
  x :: real
  y :: real
  maxWidth :: real

record button_region =
  cta_x :: real
  cta_y :: real
  cta_width :: real
  cta_height :: real

record layout_regions =
  headline_region :: text_region
  description_region :: text_region
  cta_region :: button_region

text \<open>
  \<^verbatim>\<open>calculateLayout(width, height)\<close>; it reads \<^verbatim>\<open>customizations.padding\<close> and
  switches on \<^verbatim>\<open>customizations.layout\<close>, every other string falling to the
  \<^verbatim>\<open>default\<close> (standard) case.
\<close>

definition calculateLayout :: "customizations \<Rightarrow> real \<Rightarrow> real \<Rightarrow> layout_regions" where
  "calculateLayout cz width height =
     (let padding = padding cz in
      if layout cz = ''centered'' then
        \<lparr> headline_region = \<lparr> x = width / 2, y = padding + 40, maxWidth = width - (padding * 2) \<rparr>,
          description_region = \<lparr> x = width / 2, y = padding + 100, maxWidth = width - (padding * 2) \<rparr>,
          cta_region = \<lparr> cta_x = width / 2 - 60, cta_y = height - padding - 50,
                         cta_width = 120, cta_height = 40 \<rparr> \<rparr>
      else if layout cz = ''split'' then
        \<lparr> headline_region = \<lparr> x = padding, y = padding + 40, maxWidth = width / 2 - padding \<rparr>,
          description_region = \<lparr> x = padding, y = padding + 100, maxWidth = width / 2 - padding \<rparr>,
          cta_region = \<lparr> cta_x = width / 2 + padding, cta_y = height / 2 - 20,
                         cta_width = 120, cta_height = 40 \<rparr> \<rparr>
      else
        \<lparr> headline_region = \<lparr> x = padding, y = padding + 40, maxWidth = width - (padding * 2) \<rparr>,
          description_region = \<lparr> x = padding, y = padding + 100, maxWidth = width - (padding * 2) \<rparr>,
          cta_region = \<lparr> cta_x = padding, cta_y = height - padding - 50,
                         cta_width = 120, cta_height = 40 \<rparr> \<rparr>)"

subsection \<open>The canvas and its 2D context\<close>

text \<open>
  The surface is the list of paint operations applied since the bitmap was last cleared,
  each with the drawing state in force when it ran (fill style, font, alignment, shadow
  and clipping region): with a deterministic rasteriser the pixels are a function of this
  list. A font is kept as its three parts instead of the CSS string
  \<^verbatim>\<open>`bold ${size}px ${family}`\<close>. Colour and alignment strings are taken as the
  controls of the component deliver them (\<^verbatim>\<open>#rrggbb\<close> from a colour input, one of
  left, center, right), so every assignment to the context takes effect.
\<close>

datatype gradient = LinearGradient real real real real "(real \<times> string) list"

datatype fill_style = Color string | Gradient gradient

datatype css_font = Font bool real string

datatype path_cmd =
    MoveTo real real
  | LineTo real real
  | QuadraticCurveTo real real real real
  | ClosePath

record drawing_state =
  fillStyle :: fill_style
  font :: css_font
  textAlign :: string
  shadowColor :: string
  shadowBlur :: real
  shadowOffsetX :: real
  shadowOffsetY :: real
  clip_paths :: "path_cmd list list"

datatype paint =
    FillRect drawing_state real real real real
  | FillText drawing_state string real real

text \<open>
  \<open>context2d\<close> tells whether \<^verbatim>\<open>canvas.getContext('2d')\<close> returns a context;
  \<open>saved\<close> is the stack of \<^verbatim>\<open>ctx.save()\<close>; \<open>path\<close> is the current path, which is
  not part of the saved state. \<open>clip_paths\<close> lists the paths whose intersection is the
  clipping region, the empty list being the whole surface.
\<close>

record canvas =
  width :: real
  height :: real
  context2d :: bool
  bitmap :: "paint list"
  state :: drawing_state
  saved :: "drawing_state list"
  path :: "path_cmd list"

text \<open>The state of a fresh or reset 2D context, as the HTML standard gives it.\<close>

definition default_state :: drawing_state where
  "default_state =
     \<lparr> fillStyle = Color ''#000000'', font = Font False 10 ''sans-serif'',
       textAlign = ''start'', shadowColor = ''rgba(0, 0, 0, 0)'', shadowBlur = 0,
       shadowOffsetX = 0, shadowOffsetY = 0, clip_paths = [] \<rparr>"

text \<open>
  Assigning \<^verbatim>\<open>canvas.width\<close> or \<^verbatim>\<open>canvas.height\<close>, even the value it already has,
  clears the bitmap and resets the context to its default state.
\<close>

definition set_width :: "real \<Rightarrow> canvas \<Rightarrow> canvas" where
  "set_width w c = c\<lparr> width := w, bitmap := [], state := default_state, saved := [], path := [] \<rparr>"

definition set_height :: "real \<Rightarrow> canvas \<Rightarrow> canvas" where
  "set_height h c = c\<lparr> height := h, bitmap := [], state := default_state, saved := [], path := [] \<rparr>"

definition set_fillStyle :: "fill_style \<Rightarrow> canvas \<Rightarrow> canvas" where
  "set_fillStyle s c = c\<lparr> state := (state c)\<lparr> fillStyle := s \<rparr> \<rparr>"

definition set_font :: "css_font \<Rightarrow> canvas \<Rightarrow> canvas" where
  "set_font f c = c\<lparr> state := (state c)\<lparr> font := f \<rparr> \<rparr>"

definition set_textAlign :: "string \<Rightarrow> canvas \<Rightarrow> canvas" where
  "set_textAlign a c = c\<lparr> state := (state c)\<lparr> textAlign := a \<rparr> \<rparr>"

definition set_shadowColor :: "string \<Rightarrow> canvas \<Rightarrow> canvas" where
  "set_shadowColor s c = c\<lparr> state := (state c)\<lparr> shadowColor := s \<rparr> \<rparr>"

definition set_shadowBlur :: "real \<Rightarrow> canvas \<Rightarrow> canvas" where
  "set_shadowBlur b c = c\<lparr> state := (state c)\<lparr> shadowBlur := b \<rparr> \<rparr>"

definition set_shadowOffsetX :: "real \<Rightarrow> canvas \<Rightarrow> canvas" where
  "set_shadowOffsetX d c = c\<lparr> state := (state c)\<lparr> shadowOffsetX := d \<rparr> \<rparr>"

definition set_shadowOffsetY :: "real \<Rightarrow> canvas \<Rightarrow> canvas" where
  "set_shadowOffsetY d c = c\<lparr> state := (state c)\<lparr> shadowOffsetY := d \<rparr> \<rparr>"

definition fillRect :: "real \<Rightarrow> real \<Rightarrow> real \<Rightarrow> real \<Rightarrow> canvas \<Rightarrow> canvas" where
  "fillRect rx ry w h c = c\<lparr> bitmap := bitmap c @ [FillRect (state c) rx ry w h] \<rparr>"

definition fillText :: "string \<Rightarrow> real \<Rightarrow> real \<Rightarrow> canvas \<Rightarrow> canvas" where
  "fillText text tx ty c = c\<lparr> bitmap := bitmap c @ [FillText (state c) text tx ty] \<rparr>"

definition save :: "canvas \<Rightarrow> canvas" where
  "save c = c\<lparr> saved := state c # saved c \<rparr>"

definition restore :: "canvas \<Rightarrow> canvas" where
  "restore c = (case saved c of [] \<Rightarrow> c | s # ss \<Rightarrow> c\<lparr> state := s, saved := ss \<rparr>)"

definition beginPath :: "canvas \<Rightarrow> canvas" where
  "beginPath c = c\<lparr> path := [] \<rparr>"

definition moveTo :: "real \<Rightarrow> real \<Rightarrow> canvas \<Rightarrow> canvas" where
  "moveTo px py c = c\<lparr> path := path c @ [MoveTo px py] \<rparr>"

definition lineTo :: "real \<Rightarrow> real \<Rightarrow> canvas \<Rightarrow> canvas" where
  "lineTo px py c = c\<lparr> path := path c @ [LineTo px py] \<rparr>"

definition quadraticCurveTo :: "real \<Rightarrow> real \<Rightarrow> real \<Rightarrow> real \<Rightarrow> canvas \<Rightarrow> canvas" where
  "quadraticCurveTo cpx cpy px py c = c\<lparr> path := path c @ [QuadraticCurveTo cpx cpy px py] \<rparr>"

definition closePath :: "canvas \<Rightarrow> canvas" where
  "closePath c = c\<lparr> path := path c @ [ClosePath] \<rparr>"

text \<open>\<^verbatim>\<open>ctx.clip()\<close> intersects the clipping region with the current path.\<close>

definition clip :: "canvas \<Rightarrow> canvas" where
  "clip c = c\<lparr> state := (state c)\<lparr> clip_paths := clip_paths (state c) @ [path c] \<rparr> \<rparr>"

definition createLinearGradient :: "real \<Rightarrow> real \<Rightarrow> real \<Rightarrow> real \<Rightarrow> gradient" where
  "createLinearGradient x0 y0 x1 y1 = LinearGradient x0 y0 x1 y1 []"

fun addColorStop :: "real \<Rightarrow> string \<Rightarrow> gradient \<Rightarrow> gradient" where
  "addColorStop offset color (LinearGradient x0 y0 x1 y1 stops) =
     LinearGradient x0 y0 x1 y1 (stops @ [(offset, color)])"

subsection \<open>The drawing helpers of RealTimeCustomization\<close>

definition roundRect :: "real \<Rightarrow> real \<Rightarrow> real \<Rightarrow> real \<Rightarrow> real \<Rightarrow> canvas \<Rightarrow> canvas" where
  "roundRect rx ry w h radius ctx =
     (let ctx = beginPath ctx;
          ctx = moveTo (rx + radius) ry ctx;
          ctx = lineTo (rx + w - radius) ry ctx;
          ctx = quadraticCurveTo (rx + w) ry (rx + w) (ry + radius) ctx;
          ctx = lineTo (rx + w) (ry + h - radius) ctx;
          ctx = quadraticCurveTo (rx + w) (ry + h) (rx + w - radius) (ry + h) ctx;
          ctx = lineTo (rx + radius) (ry + h) ctx;
          ctx = quadraticCurveTo rx (ry + h) rx (ry + h - radius) ctx;
          ctx = lineTo rx (ry + radius) ctx;
          ctx = quadraticCurveTo rx ry (rx + radius) ry ctx
      in closePath ctx)"

text \<open>
  \<^verbatim>\<open>lines.forEach((line, index) => ctx.fillText(line, x, y + index * lineHeight))\<close>,
  from the given index on.
\<close>

fun fill_lines :: "real \<Rightarrow> real \<Rightarrow> real \<Rightarrow> nat \<Rightarrow> string list \<Rightarrow> canvas \<Rightarrow> canvas" where
  "fill_lines tx ty lineHeight index [] ctx = ctx"
| "fill_lines tx ty lineHeight index (line # lines) ctx =
     fill_lines tx ty lineHeight (Suc index) lines
       (fillText line tx (ty + (real index * lineHeight)) ctx)"

text \<open>
  \<^verbatim>\<open>drawText(ctx, text, x, y, maxWidth)\<close>: the loop of \<^verbatim>\<open>wrapText\<close> again, measuring
  with the font the context has at that moment, then one \<^verbatim>\<open>fillText\<close> per line,
  \<^verbatim>\<open>customizations.fontSize + 5\<close> apart. The first argument is the text-measurement
  backend: the width of a string under a font.
\<close>

definition drawText ::
  "(css_font \<Rightarrow> string \<Rightarrow> real) \<Rightarrow> customizations \<Rightarrow> string \<Rightarrow> real \<Rightarrow> real \<Rightarrow> real \<Rightarrow> canvas \<Rightarrow> canvas" where
  "drawText measureText cz text tx ty maxW ctx =
     (case split_space text of
        [] \<Rightarrow> ctx
      | currentLine # rest \<Rightarrow>
          fill_lines tx ty (fontSize cz + 5) 0
            (wrap_loop (measureText (font (state ctx))) maxW [] currentLine rest) ctx)"

definition drawButton ::
  "customizations \<Rightarrow> string \<Rightarrow> real \<Rightarrow> real \<Rightarrow> real \<Rightarrow> real \<Rightarrow> canvas \<Rightarrow> canvas" where
  "drawButton cz text btx bty w h ctx =
     (let ctx = set_fillStyle (Color (accentColor cz)) ctx;
          ctx = fillRect btx bty w h ctx;
          ctx = set_fillStyle (Color ''#ffffff'') ctx;
          ctx = set_font (Font True (fontSize cz) (fontFamily cz)) ctx;
          ctx = set_textAlign ''center'' ctx
      in fillText text (btx + w / 2) (bty + h / 2 + fontSize cz / 3) ctx)"

text \<open>\<^verbatim>\<open>applyAnimation\<close> has an empty body.\<close>

definition applyAnimation :: "canvas \<Rightarrow> canvas" where
  "applyAnimation ctx = ctx"

subsection \<open>The render\<close>

text \<open>
  \<^verbatim>\<open>updatePreview\<close>, with the component state it reads as arguments: the measurement
  backend, \<^verbatim>\<open>customizations\<close>, \<^verbatim>\<open>selectedAd\<close> (possibly undefined),
  \<^verbatim>\<open>previewMode\<close> and \<^verbatim>\<open>canvasRef.current\<close> (possibly null). The result is the
  canvas afterwards. The three early returns leave everything as it was.
\<close>

definition updatePreview ::
  "(css_font \<Rightarrow> string \<Rightarrow> real) \<Rightarrow> customizations \<Rightarrow> ad option \<Rightarrow> string \<Rightarrow> canvas option \<Rightarrow> canvas option" where
  "updatePreview measureText cz selectedAd previewMode canvasRef =
     (case canvasRef of
        None \<Rightarrow> None
      | Some canvas \<Rightarrow>
     (case selectedAd of
        None \<Rightarrow> Some canvas
      | Some selected \<Rightarrow>
      if \<not> context2d canvas then Some canvas
      else
        let dimensions = getCanvasDimensions previewMode;
            ctx = set_width (fst dimensions) canvas;
            ctx = set_height (snd dimensions) ctx;
            ctx = set_fillStyle (Color (backgroundColor cz)) ctx;
            ctx = fillRect 0 0 (width ctx) (height ctx) ctx;
            ctx = (if borderRadius cz > 0
                   then clip (roundRect 0 0 (width ctx) (height ctx) (borderRadius cz) (save ctx))
                   else ctx);
            ctx = (if accentColor cz \<noteq> backgroundColor cz
                   then
                     let gradient = createLinearGradient 0 0 (width ctx) (height ctx);
                         gradient = addColorStop 0 (backgroundColor cz) gradient;
                         gradient = addColorStop 1 (accentColor cz @ ''20'') gradient;
                         ctx = set_fillStyle (Gradient gradient) ctx
                     in fillRect 0 0 (width ctx) (height ctx) ctx
                   else ctx);
            layout = calculateLayout cz (width ctx) (height ctx);
            ctx = set_fillStyle (Color (textColor cz)) ctx;
            ctx = set_font (Font True (fontSize cz + 4) (fontFamily cz)) ctx;
            ctx = set_textAlign (textAlignment cz) ctx;
            headline = getContentVariation cz Headline (headline (content selected));
            ctx = drawText measureText cz headline (x (headline_region layout))
                    (y (headline_region layout)) (maxWidth (headline_region layout)) ctx;
            ctx = set_font (Font False (fontSize cz) (fontFamily cz)) ctx;
            description = getContentVariation cz Description (description (content selected));
            ctx = drawText measureText cz description (x (description_region layout))
                    (y (description_region layout)) (maxWidth (description_region layout)) ctx;
            cta = getContentVariation cz Cta (callToAction (content selected));
            ctx = drawButton cz cta (cta_x (cta_region layout)) (cta_y (cta_region layout))
                    (cta_width (cta_region layout)) (cta_height (cta_region layout)) ctx;
            ctx = (if shadow cz > 0
                   then set_shadowOffsetY (shadow cz)
                          (set_shadowOffsetX (shadow cz)
                            (set_shadowBlur (shadow cz * 2)
                              (set_shadowColor ''rgba(0, 0, 0, 0.1)'' ctx)))
                   else ctx);
            ctx = (if animationType cz \<noteq> ''none'' then applyAnimation ctx else ctx);
            ctx = (if borderRadius cz > 0 then restore ctx else ctx)
        in Some ctx))"

subsection \<open>Reading a rendered surface\<close>

text \<open>
  The functions below are not part of the component: they read off a surface what the
  statements of the next sections talk about.
\<close>

text \<open>The paint operations on the surface the ref holds; none when the ref is null.\<close>

fun rendered :: "canvas option \<Rightarrow> paint list" where
  "rendered None = []"
| "rendered (Some c) = bitmap c"

fun paint_state :: "paint \<Rightarrow> drawing_state" where
  "paint_state (FillRect st rx ry w h) = st"
| "paint_state (FillText st text tx ty) = st"

text \<open>A paint operation is clipped by exactly the given path.\<close>

definition clipped_by :: "path_cmd list \<Rightarrow> paint \<Rightarrow> bool" where
  "clipped_by p pt = (clip_paths (paint_state pt) = [p])"

text \<open>The rectangle fills in paint order: fill style, then x, y, width and height.\<close>

fun rect_fills :: "paint list \<Rightarrow> (fill_style \<times> real \<times> real \<times> real \<times> real) list" where
  "rect_fills [] = []"
| "rect_fills (FillRect st rx ry w h # ps) = (fillStyle st, rx, ry, w, h) # rect_fills ps"
| "rect_fills (FillText st text tx ty # ps) = rect_fills ps"

text \<open>The text draws in paint order: the string and its anchor x and y.\<close>

fun text_draws :: "paint list \<Rightarrow> (string \<times> real \<times> real) list" where
  "text_draws [] = []"
| "text_draws (FillRect st rx ry w h # ps) = text_draws ps"
| "text_draws (FillText st text tx ty # ps) = (text, tx, ty) # text_draws ps"

text \<open>The text draws in paint order: the string and the alignment it is drawn with.\<close>

fun text_aligns :: "paint list \<Rightarrow> (string \<times> string) list" where
  "text_aligns [] = []"
| "text_aligns (FillRect st rx ry w h # ps) = text_aligns ps"
| "text_aligns (FillText st text tx ty # ps) = (text, textAlign st) # text_aligns ps"

text \<open>The paints of \<^verbatim>\<open>lines.forEach(...)\<close> under one drawing state.\<close>

fun line_paints :: "drawing_state \<Rightarrow> real \<Rightarrow> real \<Rightarrow> real \<Rightarrow> nat \<Rightarrow> string list \<Rightarrow> paint list" where
  "line_paints st tx ty lineHeight index [] = []"
| "line_paints st tx ty lineHeight index (line # lines) =
     FillText st line tx (ty + (real index * lineHeight)) # line_paints st tx ty lineHeight (Suc index) lines"

text \<open>A drawing state with the default (invisible) shadow.\<close>

definition draw_state :: "fill_style \<Rightarrow> css_font \<Rightarrow> string \<Rightarrow> path_cmd list list \<Rightarrow> drawing_state" where
  "draw_state fill fnt align clips =
     \<lparr> fillStyle = fill, font = fnt, textAlign = align, shadowColor = ''rgba(0, 0, 0, 0)'',
       shadowBlur = 0, shadowOffsetX = 0, shadowOffsetY = 0, clip_paths = clips \<rparr>"

text \<open>The path that \<^verbatim>\<open>roundRect(ctx, x, y, width, height, radius)\<close> leaves in the context.\<close>

definition roundRect_path :: "real \<Rightarrow> real \<Rightarrow> real \<Rightarrow> real \<Rightarrow> real \<Rightarrow> path_cmd list" where
  "roundRect_path rx ry w h radius =
     [MoveTo (rx + radius) ry,
      LineTo (rx + w - radius) ry,
      QuadraticCurveTo (rx + w) ry (rx + w) (ry + radius),
      LineTo (rx + w) (ry + h - radius),
      QuadraticCurveTo (rx + w) (ry + h) (rx + w - radius) (ry + h),
      LineTo (rx + radius) (ry + h),
      QuadraticCurveTo rx (ry + h) rx (ry + h - radius),
      LineTo rx (ry + radius),
      QuadraticCurveTo rx ry (rx + radius) ry,
      ClosePath]"

subsection \<open>Sample inputs\<close>

text \<open>
  A deterministic measurement backend for the examples: every character is half the
  font size wide.
\<close>

fun fixed_pitch :: "css_font \<Rightarrow> string \<Rightarrow> real" where
  "fixed_pitch (Font bold px family) s = real (length s) * px / 2"

text \<open>The same backend under one fixed font, for \<^verbatim>\<open>wrapText\<close>: eight units a character.\<close>

definition eight_wide :: "string \<Rightarrow> real" where
  "eight_wide s = real (length s) * 8"

definition sample_ad :: ad where
  "sample_ad =
     \<lparr> ad_id = ''ad-1'',
       content = \<lparr> headline = ''Save Today'', description = ''Get 20% off'',
                   callToAction = ''Shop Now'' \<rparr> \<rparr>"

text \<open>A canvas element as the browser creates it: 300 by 150, nothing drawn.\<close>

definition fresh_canvas :: canvas where
  "fresh_canvas =
     \<lparr> width = 300, height = 150, context2d = True, bitmap = [], state = default_state,
       saved = [], path = [] \<rparr>"

section \<open>Properties of the word wrap\<close>

lemma split_space_not_Nil: "split_space t \<noteq> []"
  by (induction t) (auto split: list.splits)

lemma join_space_Cons: "ls \<noteq> [] \<Longrightarrow> join_space (l # ls) = l @ CHR '' '' # join_space ls"
  by (cases ls) simp_all

lemma join_space_char_Cons: "join_space ((c # w) # ws) = c # join_space (w # ws)"
  by (cases ws) simp_all

lemma join_split_space: "join_space (split_space t) = t"
proof (induction t)
  case Nil
  show ?case by simp
next
  case (Cons c cs)
  obtain w ws where sp: "split_space cs = w # ws"
    using split_space_not_Nil [of cs] by (cases "split_space cs") auto
  show ?case
  proof (cases "c = CHR '' ''")
    case True
    with Cons show ?thesis by (simp add: join_space_Cons split_space_not_Nil)
  next
    case False
    with Cons sp show ?thesis by (simp add: join_space_char_Cons)
  qed
qed

lemma join_space_append:
  "xs \<noteq> [] \<Longrightarrow> ys \<noteq> [] \<Longrightarrow> join_space (xs @ ys) = join_space xs @ CHR '' '' # join_space ys"
proof (induction xs)
  case Nil
  then show ?case by simp
next
  case (Cons x xs)
  show ?case
  proof (cases "xs = []")
    case True
    with Cons.prems show ?thesis by (simp add: join_space_Cons)
  next
    case False
    with Cons show ?thesis by (simp add: join_space_Cons)
  qed
qed

lemma join_space_snoc_Cons:
  "join_space (lines @ cur # ws) = join_space (lines @ [join_space (cur # ws)])"
proof (cases "lines = []")
  case True
  then show ?thesis by simp
next
  case False
  then show ?thesis by (simp add: join_space_append)
qed

lemma join_wrap_loop:
  "join_space (wrap_loop m mw lines cur ws) = join_space (lines @ cur # ws)"
proof (induction ws arbitrary: lines cur)
  case Nil
  show ?case by simp
next
  case (Cons w ws)
  have merge: "join_space (lines @ (cur @ '' '' @ w) # ws) = join_space (lines @ cur # w # ws)"
    by (simp add: join_space_snoc_Cons [of lines "cur @ CHR '' '' # w" ws]
        join_space_snoc_Cons [of lines cur "w # ws"] join_space_Cons [of ws]
        join_space_Cons [of "w # ws"]) (cases ws; simp)
  show ?case
    using Cons [of lines "cur @ '' '' @ w"] Cons [of "lines @ [cur]" w] merge by simp
qed

lemma wrap_loop_not_Nil: "wrap_loop m mw lines cur ws \<noteq> []"
  by (induction ws arbitrary: lines cur) simp_all

lemma wrap_loop_lines_kept: "set lines \<subseteq> set (wrap_loop m mw lines cur ws)"
proof (induction ws arbitrary: lines cur)
  case Nil
  show ?case by auto
next
  case (Cons w ws)
  show ?case using Cons [of lines "cur @ '' '' @ w"] Cons [of "lines @ [cur]" w] by auto
qed

lemma wrap_loop_line_cases:
  "l \<in> set (wrap_loop m mw lines cur ws) \<Longrightarrow>
   l \<in> set lines \<or> l = cur \<or> l \<in> set ws \<or> m l < mw"
proof (induction ws arbitrary: lines cur)
  case Nil
  then show ?case by auto
next
  case (Cons w ws)
  show ?case
  proof (cases "m (cur @ '' '' @ w) < mw")
    case True
    with Cons.prems have "l \<in> set (wrap_loop m mw lines (cur @ '' '' @ w) ws)" by simp
    from Cons.IH [OF this] True show ?thesis by auto
  next
    case False
    with Cons.prems have "l \<in> set (wrap_loop m mw (lines @ [cur]) w ws)" by simp
    from Cons.IH [OF this] show ?thesis by auto
  qed
qed

lemma split_space_append_space:
  "split_space (a @ CHR '' '' # b) = split_space a @ split_space b"
proof (induction a)
  case Nil
  show ?case by simp
next
  case (Cons c a)
  obtain w ws where sp: "split_space a = w # ws"
    using split_space_not_Nil [of a] by (cases "split_space a") auto
  with Cons show ?case by simp
qed

lemma words_wrap_loop:
  "concat (map split_space (wrap_loop m mw lines cur ws)) =
   concat (map split_space lines) @ split_space cur @ concat (map split_space ws)"
  by (induction ws arbitrary: lines cur) (simp_all add: split_space_append_space)

lemma split_space_no_space: "w \<in> set (split_space t) \<Longrightarrow> CHR '' '' \<notin> set w"
proof (induction t arbitrary: w)
  case Nil
  then show ?case by simp
next
  case (Cons c cs)
  obtain v vs where sp: "split_space cs = v # vs"
    using split_space_not_Nil [of cs] by (cases "split_space cs") auto
  with Cons show ?case by (auto split: if_splits)
qed

lemma split_space_word: "CHR '' '' \<notin> set w \<Longrightarrow> split_space w = [w]"
  by (induction w) auto

lemma split_space_idem: "concat (map split_space (split_space t)) = split_space t"
proof -
  have "\<And>ws. (\<forall>w\<in>set ws. CHR '' '' \<notin> set w) \<Longrightarrow> concat (map split_space ws) = ws"
    subgoal for ws by (induction ws) (simp_all add: split_space_word)
    done
  then show ?thesis using split_space_no_space by blast
qed

lemma wrap_loop_wide:
  assumes mono: "\<And>u v. m u \<le> m (u @ v) \<and> m v \<le> m (u @ v)"
  shows "(mw < m cur \<longrightarrow> cur \<in> set (wrap_loop m mw lines cur ws)) \<and>
         (\<forall>w\<in>set ws. mw < m w \<longrightarrow> w \<in> set (wrap_loop m mw lines cur ws))"
proof (induction ws arbitrary: lines cur)
  case Nil
  show ?case by simp
next
  case (Cons w ws)
  have cur_le: "m cur \<le> m (cur @ '' '' @ w)" using mono by blast
  have w_le: "m w \<le> m (cur @ '' '' @ w)" using mono [of "cur @ '' ''" w] by simp
  show ?case
  proof (cases "m (cur @ '' '' @ w) < mw")
    case True
    then have "\<not> mw < m cur" "\<not> mw < m w" using cur_le w_le by auto
    with True Cons.IH [where lines = lines and cur = "cur @ '' '' @ w"] show ?thesis by simp
  next
    case False
    have "cur \<in> set (wrap_loop m mw (lines @ [cur]) w ws)"
      using wrap_loop_lines_kept [where lines = "lines @ [cur]" and cur = w and ws = ws and m = m and mw = mw] by auto
    with False Cons.IH [where lines = "lines @ [cur]" and cur = w] show ?thesis by simp
  qed
qed

section \<open>What the drawing helpers and the render put on the surface\<close>

lemma fill_lines_eq:
  "fill_lines tx ty lh i ls c = c\<lparr> bitmap := bitmap c @ line_paints (state c) tx ty lh i ls \<rparr>"
  by (induction ls arbitrary: i c) (simp_all add: fillText_def)

lemma drawText_eq:
  "drawText m cz text tx ty mw c =
   c\<lparr> bitmap := bitmap c @ line_paints (state c) tx ty (fontSize cz + 5) 0
                               (wrapText (m (font (state c))) text mw) \<rparr>"
  by (simp add: drawText_def wrapText_def fill_lines_eq split: list.splits)

lemma drawButton_eq:
  "drawButton cz text btx bty w h c =
   c\<lparr> bitmap := bitmap c @
         [FillRect ((state c)\<lparr> fillStyle := Color (accentColor cz) \<rparr>) btx bty w h,
          FillText ((state c)\<lparr> fillStyle := Color ''#ffffff'',
                                font := Font True (fontSize cz) (fontFamily cz),
                                textAlign := ''center'' \<rparr>)
            text (btx + w / 2) (bty + h / 2 + fontSize cz / 3)],
       state := (state c)\<lparr> fillStyle := Color ''#ffffff'',
                             font := Font True (fontSize cz) (fontFamily cz),
                             textAlign := ''center'' \<rparr> \<rparr>"
  by (simp add: drawButton_def Let_def set_fillStyle_def fillRect_def set_font_def
      set_textAlign_def fillText_def)

lemma roundRect_eq:
  "roundRect rx ry w h r c = c\<lparr> path := roundRect_path rx ry w h r \<rparr>"
  by (simp add: roundRect_def roundRect_path_def Let_def beginPath_def moveTo_def lineTo_def
      quadraticCurveTo_def closePath_def)

lemma reset_canvas:
  "context2d c \<Longrightarrow> set_height h (set_width w c) =
     \<lparr> width = w, height = h, context2d = True, bitmap = [], state = default_state,
       saved = [], path = [] \<rparr>"
  by (simp add: set_height_def set_width_def)

lemma updatePreview_bitmap:
  assumes "context2d c" and "getCanvasDimensions mode = (W, H)"
  shows "rendered (updatePreview m cz (Some selected) mode (Some c)) =
     FillRect (draw_state (Color (backgroundColor cz)) (Font False 10 ''sans-serif'') ''start'' [])
       0 0 W H #
     (if accentColor cz \<noteq> backgroundColor cz
      then [FillRect (draw_state
              (Gradient (LinearGradient 0 0 W H
                 [(0, backgroundColor cz), (1, accentColor cz @ ''20'')]))
              (Font False 10 ''sans-serif'') ''start''
              (if borderRadius cz > 0 then [roundRect_path 0 0 W H (borderRadius cz)] else []))
            0 0 W H]
      else []) @
     line_paints
       (draw_state (Color (textColor cz)) (Font True (fontSize cz + 4) (fontFamily cz))
          (textAlignment cz)
          (if borderRadius cz > 0 then [roundRect_path 0 0 W H (borderRadius cz)] else []))
       (x (headline_region (calculateLayout cz W H)))
       (y (headline_region (calculateLayout cz W H))) (fontSize cz + 5) 0
       (wrapText (m (Font True (fontSize cz + 4) (fontFamily cz)))
          (getContentVariation cz Headline (headline (content selected)))
          (maxWidth (headline_region (calculateLayout cz W H)))) @
     line_paints
       (draw_state (Color (textColor cz)) (Font False (fontSize cz) (fontFamily cz))
          (textAlignment cz)
          (if borderRadius cz > 0 then [roundRect_path 0 0 W H (borderRadius cz)] else []))
       (x (description_region (calculateLayout cz W H)))
       (y (description_region (calculateLayout cz W H))) (fontSize cz + 5) 0
       (wrapText (m (Font False (fontSize cz) (fontFamily cz)))
          (getContentVariation cz Description (description (content selected)))
          (maxWidth (description_region (calculateLayout cz W H)))) @
     [FillRect
        (draw_state (Color (accentColor cz)) (Font False (fontSize cz) (fontFamily cz))
           (textAlignment cz)
           (if borderRadius cz > 0 then [roundRect_path 0 0 W H (borderRadius cz)] else []))
        (cta_x (cta_region (calculateLayout cz W H)))
        (cta_y (cta_region (calculateLayout cz W H)))
        (cta_width (cta_region (calculateLayout cz W H)))
        (cta_height (cta_region (calculateLayout cz W H))),
      FillText
        (draw_state (Color ''#ffffff'') (Font True (fontSize cz) (fontFamily cz)) ''center''
           (if borderRadius cz > 0 then [roundRect_path 0 0 W H (borderRadius cz)] else []))
        (getContentVariation cz Cta (callToAction (content selected)))
        (cta_x (cta_region (calculateLayout cz W H)) +
           cta_width (cta_region (calculateLayout cz W H)) / 2)
        (cta_y (cta_region (calculateLayout cz W H)) +
           cta_height (cta_region (calculateLayout cz W H)) / 2 + fontSize cz / 3)]"
proof -
  note defs = updatePreview_def Let_def reset_canvas drawText_eq drawButton_eq roundRect_eq
      set_fillStyle_def fillRect_def set_font_def set_textAlign_def save_def restore_def
      clip_def createLinearGradient_def set_shadowColor_def set_shadowBlur_def
      set_shadowOffsetX_def set_shadowOffsetY_def applyAnimation_def default_state_def
      draw_state_def
  show ?thesis
    using assms
    by (cases "borderRadius cz > 0"; cases "accentColor cz = backgroundColor cz";
        cases "shadow cz > 0"; cases "animationType cz = ''none''")
       (simp_all add: defs cong: let_weak_cong)
qed

lemma text_draws_line_paints:
  "map fst (text_draws (line_paints st tx ty lh i ls)) = ls"
  by (induction ls arbitrary: i) simp_all

lemma text_draws_append: "text_draws (ps @ qs) = text_draws ps @ text_draws qs"
  by (induction ps rule: text_draws.induct) simp_all

lemma rect_fills_append: "rect_fills (ps @ qs) = rect_fills ps @ rect_fills qs"
  by (induction ps rule: rect_fills.induct) simp_all

lemma text_aligns_append: "text_aligns (ps @ qs) = text_aligns ps @ text_aligns qs"
  by (induction ps rule: text_aligns.induct) simp_all

lemma rect_fills_line_paints: "rect_fills (line_paints st tx ty lh i ls) = []"
  by (induction ls arbitrary: i) simp_all

lemma length_text_draws_line_paints: "length (text_draws (line_paints st tx ty lh i ls)) = length ls"
  by (induction ls arbitrary: i) simp_all

lemma text_draws_line_paints_x:
  "list_all (\<lambda>d. fst (snd d) = tx) (text_draws (line_paints st tx ty lh i ls))"
  by (induction ls arbitrary: i) simp_all

lemma text_aligns_line_paints:
  "list_all (\<lambda>a. snd a = textAlign st) (text_aligns (line_paints st tx ty lh i ls))"
  by (induction ls arbitrary: i) simp_all

lemma clipped_line_paints:
  "clip_paths st = [p] \<Longrightarrow> list_all (clipped_by p) (line_paints st tx ty lh i ls)"
  by (induction ls arbitrary: i) (simp_all add: clipped_by_def)

lemma wrapText_not_Nil: "wrapText m str mw \<noteq> []"
  by (simp add: wrapText_def wrap_loop_not_Nil split_space_not_Nil split: list.splits)

lemma draw_state_simps:
  "fillStyle (draw_state f fnt a cl) = f" "font (draw_state f fnt a cl) = fnt"
  "textAlign (draw_state f fnt a cl) = a" "clip_paths (draw_state f fnt a cl) = cl"
  by (simp_all add: draw_state_def)

lemma let_resize:
  "(let d = D; a = set_width (fst d) c; b = set_height (snd d) a in K b) =
   K (set_height (snd D) (set_width (fst D) c))"
  by (simp add: Let_def)

lemma updatePreview_reset:
  assumes "context2d c" and "context2d c'"
  shows "updatePreview m cz (Some selected) mode (Some c) =
         updatePreview m cz (Some selected) mode (Some c')"
proof -
  have r: "set_height h (set_width w c) = set_height h (set_width w c')" for w h
    using assms by (simp add: reset_canvas)
  show ?thesis
    unfolding updatePreview_def
    by (simp only: option.case assms not_True_eq_False if_False let_resize r)
qed

lemma updatePreview_keeps_context:
  assumes "context2d c"
  shows "\<exists>c'. updatePreview m cz (Some selected) mode (Some c) = Some c' \<and> context2d c'"
proof -
  note defs = updatePreview_def Let_def reset_canvas drawText_eq drawButton_eq roundRect_eq
      set_fillStyle_def fillRect_def set_font_def set_textAlign_def save_def restore_def
      clip_def createLinearGradient_def set_shadowColor_def set_shadowBlur_def
      set_shadowOffsetX_def set_shadowOffsetY_def applyAnimation_def default_state_def
  show ?thesis
    using assms
    by (cases "borderRadius cz > 0"; cases "accentColor cz = backgroundColor cz";
        cases "shadow cz > 0"; cases "animationType cz = ''none''")
       (simp_all add: defs cong: let_weak_cong)
qed

section \<open>Claims about the word wrap\<close>

text \<open>
  Claim C9. For every input string, joining the lines returned by the greedy word wrap
  with single spaces gives back the input string, so no word is dropped, duplicated or
  reordered (the words of the lines, in order, are the words of the input); the returned
  list is never empty, and for the empty string it is the one-element list holding the
  empty line. \<^verbatim>\<open>drawText\<close> draws exactly the lines \<^verbatim>\<open>wrapText\<close> returns for the
  font in force.
\<close>

theorem wrapText_rejoins:
  "join_space (wrapText m str mw) = str \<and>
   wrapText m str mw \<noteq> [] \<and>
   wrapText m [] mw = [[]] \<and>
   concat (map split_space (wrapText m str mw)) = split_space str \<and>
   map fst (text_draws (bitmap (drawText mf cz str tx ty mw (c\<lparr> bitmap := [] \<rparr>)))) =
     wrapText (mf (font (state c))) str mw"
proof -
  obtain w ws where sp: "split_space str = w # ws"
    using split_space_not_Nil [of str] by (cases "split_space str") auto
  have "join_space (wrapText m str mw) = join_space (split_space str)"
    by (simp add: wrapText_def sp join_wrap_loop)
  then have a: "join_space (wrapText m str mw) = str"
    by (simp add: join_split_space)
  have b: "wrapText m str mw \<noteq> []"
    by (simp add: wrapText_def sp wrap_loop_not_Nil)
  have c: "wrapText m [] mw = [[]]"
    by (simp add: wrapText_def)
  have "concat (map split_space (wrapText m str mw)) =
        concat (map split_space (split_space str))"
    by (simp add: wrapText_def sp words_wrap_loop)
  then have d: "concat (map split_space (wrapText m str mw)) = split_space str"
    by (simp add: split_space_idem)
  have e: "map fst (text_draws (bitmap (drawText mf cz str tx ty mw (c\<lparr> bitmap := [] \<rparr>)))) =
     wrapText (mf (font (state c))) str mw"
    by (simp add: drawText_eq text_draws_line_paints)
  from a b c d e show ?thesis by blast
qed

text \<open>
  Claim C1. For every input string and every maximal width (positive or not), every line
  the greedy wrap produces measures at most the maximal width, unless the line is one
  single word of the input that is itself wider. No word is dropped: the words of the
  lines are the words of the input. When the measure never shrinks as a string is
  extended on either side, every word wider than the maximal width is a line by itself.
  The lines \<^verbatim>\<open>drawText\<close> draws are the lines of \<^verbatim>\<open>wrapText\<close> under the font of
  the context, so the same holds for them.
\<close>

theorem wrapText_width:
  "(\<forall>l\<in>set (wrapText m str mw).
      m l \<le> mw \<or> (l \<in> set (split_space str) \<and> mw < m l)) \<and>
   concat (map split_space (wrapText m str mw)) = split_space str \<and>
   ((\<forall>u v. m u \<le> m (u @ v) \<and> m v \<le> m (u @ v)) \<longrightarrow>
      (\<forall>w\<in>set (split_space str). mw < m w \<longrightarrow> w \<in> set (wrapText m str mw))) \<and>
   map fst (text_draws (bitmap (drawText mf cz str tx ty mw (c\<lparr> bitmap := [] \<rparr>)))) =
     wrapText (mf (font (state c))) str mw"
proof -
  obtain w ws where sp: "split_space str = w # ws"
    using split_space_not_Nil [of str] by (cases "split_space str") auto
  have a: "m l \<le> mw \<or> (l \<in> set (split_space str) \<and> mw < m l)"
    if "l \<in> set (wrapText m str mw)" for l
  proof -
    from that have "l \<in> set (wrap_loop m mw [] w ws)" by (simp add: wrapText_def sp)
    from wrap_loop_line_cases [OF this] have "l \<in> set (split_space str) \<or> m l < mw"
      by (auto simp: sp)
    then show ?thesis by (cases "m l \<le> mw") auto
  qed
  have "concat (map split_space (wrapText m str mw)) =
        concat (map split_space (split_space str))"
    by (simp add: wrapText_def sp words_wrap_loop)
  then have b: "concat (map split_space (wrapText m str mw)) = split_space str"
    by (simp add: split_space_idem)
  have c: "v \<in> set (wrapText m str mw)"
    if mono: "\<forall>u v. m u \<le> m (u @ v) \<and> m v \<le> m (u @ v)"
      and v: "v \<in> set (split_space str)" "mw < m v" for v
  proof -
    from mono have "\<And>u v. m u \<le> m (u @ v) \<and> m v \<le> m (u @ v)" by blast
    from wrap_loop_wide [of m mw w "[]" ws, OF this] v show ?thesis
      by (auto simp: wrapText_def sp)
  qed
  have d: "map fst (text_draws (bitmap (drawText mf cz str tx ty mw (c\<lparr> bitmap := [] \<rparr>)))) =
     wrapText (mf (font (state c))) str mw"
    by (simp add: drawText_eq text_draws_line_paints)
  from a b c d show ?thesis by blast
qed

theorem wrapText_width_witness:
  "(\<forall>u v. eight_wide u \<le> eight_wide (u @ v) \<and> eight_wide v \<le> eight_wide (u @ v)) \<and>
   ''cccccccc'' \<in> set (split_space ''aa bb cccccccc'') \<and>
   48 < eight_wide ''cccccccc'' \<and>
   wrapText eight_wide ''aa bb cccccccc'' 48 = [''aa bb'', ''cccccccc''] \<and>
   eight_wide ''aa bb'' \<le> 48"
  using wrapText_width [of eight_wide "''aa bb cccccccc''" 48]
  by (simp add: wrapText_def eight_wide_def)


section \<open>Claims about the content variants\<close>

text \<open>
  Claim C6. For every variation index outside the bounds of the variant array of its
  field (negative, or at least the length of the array), the array read is undefined,
  and the content-variation resolution returns the original string of that field:
  nothing is thrown and the displayed text is never undefined.
\<close>

theorem getContentVariation_fallback:
  assumes "variationIndex cz ty < 0 \<or> int (length (variations ty original)) \<le> variationIndex cz ty"
  shows "js_index (variations ty original) (variationIndex cz ty) = None \<and>
         getContentVariation cz ty original = original"
  using assms by (auto simp: getContentVariation_def js_index_def js_or_def)

theorem getContentVariation_fallback_witness:
  "(variationIndex (initial_customizations\<lparr> headlineVariation := 7 \<rparr>) Headline < 0 \<or>
    int (length (variations Headline ''Save Today'')) \<le>
      variationIndex (initial_customizations\<lparr> headlineVariation := 7 \<rparr>) Headline) \<and>
   getContentVariation (initial_customizations\<lparr> headlineVariation := 7 \<rparr>) Headline ''Save Today'' =
     ''Save Today''"
  using getContentVariation_fallback
    [of "initial_customizations\<lparr> headlineVariation := 7 \<rparr>" Headline "''Save Today''"]
  by (simp add: initial_customizations_def)

lemma sublist_self_append: "sublist t (t @ s)"
  by (metis append_Nil sublist_appendI)

lemma sublist_prepend_self: "sublist t (s @ t)"
  by (metis append_Nil2 sublist_appendI)

lemma sublist_Cons_later: "sublist t s \<Longrightarrow> sublist t (c # s)"
  unfolding sublist_def by (metis append_Cons)

text \<open>
  Claim C10. For every CTA variation index from 1 to 4 the resolution returns one of the
  four fixed strings 'Get Started', 'Learn More', 'Try Now', 'Shop Today', whatever the
  original call-to-action is; every other index (0 or out of range) returns the
  original string. Every headline and description variant, and so every resolved
  headline and description, contains the original text as a substring.
\<close>

theorem cta_variation_fixed:
  "(ctaVariation cz \<in> {1..4} \<longrightarrow>
      getContentVariation cz Cta original =
        [''Get Started'', ''Learn More'', ''Try Now'', ''Shop Today''] ! nat (ctaVariation cz - 1)) \<and>
   (ctaVariation cz \<notin> {1..4} \<longrightarrow> getContentVariation cz Cta original = original) \<and>
   (\<forall>v\<in>set (variations Headline original) \<union> set (variations Description original).
      sublist original v) \<and>
   sublist original (getContentVariation cz Headline original) \<and>
   sublist original (getContentVariation cz Description original)"
proof -
  have a: "getContentVariation cz Cta original =
        [''Get Started'', ''Learn More'', ''Try Now'', ''Shop Today''] ! nat (ctaVariation cz - 1)"
    if "ctaVariation cz \<in> {1..4}"
  proof -
    from that have "ctaVariation cz = 1 \<or> ctaVariation cz = 2 \<or> ctaVariation cz = 3 \<or>
      ctaVariation cz = 4" by auto
    then show ?thesis
      by (elim disjE) (simp_all add: getContentVariation_def js_index_def js_or_def)
  qed
  have b: "getContentVariation cz Cta original = original" if "ctaVariation cz \<notin> {1..4}"
  proof -
    from that have "ctaVariation cz < 0 \<or> ctaVariation cz = 0 \<or> 5 \<le> ctaVariation cz" by auto
    then show ?thesis
      by (elim disjE) (auto simp: getContentVariation_def js_index_def js_or_def)
  qed
  have c: "\<forall>v\<in>set (variations Headline original) \<union> set (variations Description original).
      sublist original v"
    by (auto intro!: sublist_self_append sublist_Cons_later)
  have in_pool: "getContentVariation cz ty original = original \<or>
      getContentVariation cz ty original \<in> set (variations ty original)" for ty
    by (auto simp: getContentVariation_def js_index_def js_or_def)
  from c in_pool [of Headline] have d: "sublist original (getContentVariation cz Headline original)"
    by (metis UnI1 sublist_order.order_refl)
  from c in_pool [of Description] have e: "sublist original (getContentVariation cz Description original)"
    by (metis UnI2 sublist_order.order_refl)
  from a b c d e show ?thesis by blast
qed

theorem cta_variation_fixed_witness:
  "ctaVariation (initial_customizations\<lparr> ctaVariation := 3 \<rparr>) \<in> {1..4} \<and>
   getContentVariation (initial_customizations\<lparr> ctaVariation := 3 \<rparr>) Cta ''Shop Now'' = ''Try Now'' \<and>
   ctaVariation initial_customizations \<notin> {1..4} \<and>
   getContentVariation initial_customizations Cta ''Shop Now'' = ''Shop Now'' \<and>
   ''New: Save Today'' \<in> set (variations Headline ''Save Today'') \<and>
   sublist ''Save Today'' ''New: Save Today''"
  using cta_variation_fixed [of "initial_customizations\<lparr> ctaVariation := 3 \<rparr>" "''Shop Now''"]
    cta_variation_fixed [of initial_customizations "''Shop Now''"]
    cta_variation_fixed [of initial_customizations "''Save Today''"]
  by (simp add: initial_customizations_def)

section \<open>Claims about the layout\<close>

text \<open>
  Claim C4, as stated, fails. With the centered layout on the desktop surface and the
  initial padding 20, the headline region starts at x = 300 and has maxWidth 560, so as
  a span from x to x + maxWidth it ends at 860, beyond the surface width 600.
\<close>

theorem layout_bounds_counterexample:
  "\<not> (0 \<le> x (headline_region (calculateLayout (initial_customizations\<lparr> layout := ''centered'' \<rparr>)
              (fst (getCanvasDimensions ''desktop'')) (snd (getCanvasDimensions ''desktop'')))) \<and>
      x (headline_region (calculateLayout (initial_customizations\<lparr> layout := ''centered'' \<rparr>)
              (fst (getCanvasDimensions ''desktop'')) (snd (getCanvasDimensions ''desktop'')))) +
      maxWidth (headline_region (calculateLayout (initial_customizations\<lparr> layout := ''centered'' \<rparr>)
              (fst (getCanvasDimensions ''desktop'')) (snd (getCanvasDimensions ''desktop''))))
        \<le> fst (getCanvasDimensions ''desktop''))"
  by (simp add: calculateLayout_def Let_def getCanvasDimensions_def initial_customizations_def)


text \<open>
  Claim C4, amended. For each of the three layouts, every padding in [10, 40] and each
  of the three surfaces, the CTA rectangle lies within the surface, the anchor (x, y) of
  the headline and description regions lies within the surface, and their maxWidth is
  between 0 and the surface width. In the standard and split layouts the span from x to
  x + maxWidth lies within the surface width; in the centered layout it is the span of
  width maxWidth centred on x that does.
\<close>

theorem layout_bounds_amended:
  assumes "10 \<le> padding cz" and "padding cz \<le> 40"
    and "layout cz \<in> {''standard'', ''centered'', ''split''}"
    and "mode \<in> {''desktop'', ''tablet'', ''mobile''}"
    and "getCanvasDimensions mode = (W, H)"
    and "r = headline_region (calculateLayout cz W H) \<or>
         r = description_region (calculateLayout cz W H)"
    and "b = cta_region (calculateLayout cz W H)"
  shows "0 \<le> cta_x b \<and> cta_x b + cta_width b \<le> W \<and> 0 \<le> cta_y b \<and> cta_y b + cta_height b \<le> H \<and>
         0 \<le> x r \<and> x r \<le> W \<and> 0 \<le> y r \<and> y r \<le> H \<and> 0 \<le> maxWidth r \<and> maxWidth r \<le> W \<and>
         (layout cz \<noteq> ''centered'' \<longrightarrow> x r + maxWidth r \<le> W) \<and>
         (layout cz = ''centered'' \<longrightarrow> 0 \<le> x r - maxWidth r / 2 \<and> x r + maxWidth r / 2 \<le> W)"
proof -
  from assms(4,5) have dims: "(W, H) = (600, 400) \<or> (W, H) = (768, 500) \<or> (W, H) = (320, 400)"
    by (auto simp: getCanvasDimensions_def)
  from assms(3) consider "layout cz = ''standard''" | "layout cz = ''centered''" | "layout cz = ''split''"
    by auto
  then show ?thesis
  proof cases
    case 1
    with assms(1,2,6,7) dims show ?thesis by (auto simp: calculateLayout_def Let_def)
  next
    case 2
    with assms(1,2,6,7) dims show ?thesis by (auto simp: calculateLayout_def Let_def)
  next
    case 3
    with assms(1,2,6,7) dims show ?thesis by (auto simp: calculateLayout_def Let_def)
  qed
qed

theorem layout_bounds_amended_witness:
  "(10::real) \<le> padding (initial_customizations\<lparr> layout := ''centered'' \<rparr>) \<and>
   padding (initial_customizations\<lparr> layout := ''centered'' \<rparr>) \<le> 40 \<and>
   layout (initial_customizations\<lparr> layout := ''centered'' \<rparr>) \<in> {''standard'', ''centered'', ''split''} \<and>
   ''mobile'' \<in> {''desktop'', ''tablet'', ''mobile''} \<and>
   getCanvasDimensions ''mobile'' = (320, 400) \<and>
   x (headline_region (calculateLayout (initial_customizations\<lparr> layout := ''centered'' \<rparr>) 320 400)) -
     maxWidth (headline_region (calculateLayout (initial_customizations\<lparr> layout := ''centered'' \<rparr>) 320 400)) / 2 = 20 \<and>
   cta_x (cta_region (calculateLayout (initial_customizations\<lparr> layout := ''centered'' \<rparr>) 320 400)) +
     cta_width (cta_region (calculateLayout (initial_customizations\<lparr> layout := ''centered'' \<rparr>) 320 400)) \<le> 320"
  using layout_bounds_amended [of "initial_customizations\<lparr> layout := ''centered'' \<rparr>" "''mobile''" 320 400
      "headline_region (calculateLayout (initial_customizations\<lparr> layout := ''centered'' \<rparr>) 320 400)"
      "cta_region (calculateLayout (initial_customizations\<lparr> layout := ''centered'' \<rparr>) 320 400)"]
  by (simp add: calculateLayout_def Let_def getCanvasDimensions_def initial_customizations_def)


section \<open>Claims about the render\<close>

text \<open>
  Claim C7. The render draws a linear-gradient overlay exactly when the accent colour
  differs from the background colour. The rectangle fills of a render are, in order:
  the flat background over the whole surface; then, only when the two colours differ,
  the whole surface again with a gradient along the diagonal from (0, 0) to
  (width, height), from the background colour at stop 0 to the accent colour with the
  hex alpha suffix 20 at stop 1; then the CTA button. When the colours are equal the
  flat background fill is followed by no other background paint.
\<close>

theorem gradient_overlay:
  assumes "context2d c" and "getCanvasDimensions mode = (W, H)"
  shows "rect_fills (rendered (updatePreview m cz (Some selected) mode (Some c))) =
     (Color (backgroundColor cz), 0, 0, W, H) #
     (if accentColor cz \<noteq> backgroundColor cz
      then [(Gradient (LinearGradient 0 0 W H
               [(0, backgroundColor cz), (1, accentColor cz @ ''20'')]), 0, 0, W, H)]
      else []) @
     [(Color (accentColor cz),
       cta_x (cta_region (calculateLayout cz W H)), cta_y (cta_region (calculateLayout cz W H)),
       cta_width (cta_region (calculateLayout cz W H)),
       cta_height (cta_region (calculateLayout cz W H)))]"
  by (simp add: updatePreview_bitmap [OF assms] rect_fills_append rect_fills_line_paints
      draw_state_simps)

theorem gradient_overlay_witness:
  "context2d fresh_canvas \<and> getCanvasDimensions ''desktop'' = (600, 400) \<and>
   rect_fills (rendered (updatePreview fixed_pitch initial_customizations (Some sample_ad)
       ''desktop'' (Some fresh_canvas))) =
     [(Color ''#ffffff'', 0, 0, 600, 400),
      (Gradient (LinearGradient 0 0 600 400 [(0, ''#ffffff''), (1, ''#007bff20'')]), 0, 0, 600, 400),
      (Color ''#007bff'', 20, 330, 120, 40)] \<and>
   rect_fills (rendered (updatePreview fixed_pitch
       (initial_customizations\<lparr> accentColor := ''#ffffff'' \<rparr>) (Some sample_ad)
       ''desktop'' (Some fresh_canvas))) =
     [(Color ''#ffffff'', 0, 0, 600, 400), (Color ''#ffffff'', 20, 330, 120, 40)]"
  using gradient_overlay [of fresh_canvas "''desktop''" 600 400 fixed_pitch
      initial_customizations sample_ad]
    gradient_overlay [of fresh_canvas "''desktop''" 600 400 fixed_pitch
      "initial_customizations\<lparr> accentColor := ''#ffffff'' \<rparr>" sample_ad]
  by (simp add: fresh_canvas_def getCanvasDimensions_def initial_customizations_def
      calculateLayout_def Let_def)

text \<open>
  Claim C3, as stated, fails. With the initial border radius 8 the first step of the
  render is the flat background fill, drawn before any clipping path exists: not every
  paint of the render is clipped by the rounded rectangle.
\<close>

theorem clip_first_counterexample:
  "\<not> list_all (clipped_by (roundRect_path 0 0 600 400 8))
       (rendered (updatePreview fixed_pitch initial_customizations (Some sample_ad)
          ''desktop'' (Some fresh_canvas)))"
proof -
  have "context2d fresh_canvas" and "getCanvasDimensions ''desktop'' = (600, 400)"
    by (simp_all add: fresh_canvas_def getCanvasDimensions_def)
  from updatePreview_bitmap [OF this] show ?thesis
    by (simp add: clipped_by_def draw_state_simps)
qed

text \<open>
  Claim C3, amended. Whenever the border radius is positive, the render first fills the
  whole surface with the flat background colour, unclipped, and then builds the
  rounded-rectangle path over the full surface bounds and clips with it: every later
  paint (the gradient overlay, the headline and description lines, the CTA button and
  its label) is clipped by exactly that path.
\<close>

theorem clip_after_background:
  assumes "context2d c" and "0 < borderRadius cz" and "getCanvasDimensions mode = (W, H)"
  shows "hd (rendered (updatePreview m cz (Some selected) mode (Some c))) =
           FillRect (draw_state (Color (backgroundColor cz)) (Font False 10 ''sans-serif'')
                       ''start'' []) 0 0 W H \<and>
         tl (rendered (updatePreview m cz (Some selected) mode (Some c))) \<noteq> [] \<and>
         list_all (clipped_by (roundRect_path 0 0 W H (borderRadius cz)))
           (tl (rendered (updatePreview m cz (Some selected) mode (Some c))))"
  using assms(2)
  by (simp add: updatePreview_bitmap [OF assms(1,3)] clipped_line_paints draw_state_simps)
     (simp add: clipped_by_def draw_state_simps)


theorem clip_after_background_witness:
  "context2d fresh_canvas \<and> (0::real) < borderRadius initial_customizations \<and>
   getCanvasDimensions ''desktop'' = (600, 400) \<and>
   list_all (clipped_by (roundRect_path 0 0 600 400 8))
     (tl (rendered (updatePreview fixed_pitch initial_customizations (Some sample_ad)
        ''desktop'' (Some fresh_canvas))))"
  using clip_after_background [of fresh_canvas initial_customizations "''desktop''" 600 400
      fixed_pitch sample_ad]
  by (simp add: fresh_canvas_def getCanvasDimensions_def initial_customizations_def)

text \<open>
  Claim C5. For every measurement backend, customization, selected ad and preview mode,
  rendering twice in succession leaves the surface exactly as rendering once does: the
  whole canvas (its size, its paint list and the state of its context) is the same.
  The reason is that each render resets the surface first, so that the result does not
  depend on what the canvas held before.
\<close>

theorem updatePreview_idempotent:
  "updatePreview m cz selectedAd mode (updatePreview m cz selectedAd mode canvasRef) =
     updatePreview m cz selectedAd mode canvasRef \<and>
   (context2d c \<and> context2d c' \<longrightarrow>
     updatePreview m cz (Some selected) mode (Some c) =
     updatePreview m cz (Some selected) mode (Some c'))"
proof -
  have "updatePreview m cz selectedAd mode (updatePreview m cz selectedAd mode canvasRef) =
     updatePreview m cz selectedAd mode canvasRef"
  proof (cases canvasRef)
    case None
    then show ?thesis by (simp add: updatePreview_def)
  next
    case (Some c0)
    show ?thesis
    proof (cases selectedAd)
      case None
      with Some show ?thesis by (simp add: updatePreview_def)
    next
      case sel: (Some sel0)
      show ?thesis
      proof (cases "context2d c0")
        case False
        with Some sel show ?thesis by (simp add: updatePreview_def)
      next
        case True
        from updatePreview_keeps_context [OF True, of m cz sel0 mode]
        obtain c1 where c1: "updatePreview m cz (Some sel0) mode (Some c0) = Some c1"
          and ctx: "context2d c1" by blast
        from updatePreview_reset [OF ctx True, of m cz sel0 mode] c1 Some sel
        show ?thesis by simp
      qed
    qed
  qed
  then show ?thesis using updatePreview_reset by blast
qed

theorem updatePreview_idempotent_witness:
  "context2d (fresh_canvas\<lparr> bitmap := [FillRect default_state 0 0 10 10] \<rparr>) \<and>
   context2d fresh_canvas \<and>
   updatePreview fixed_pitch initial_customizations (Some sample_ad) ''desktop''
     (Some (fresh_canvas\<lparr> bitmap := [FillRect default_state 0 0 10 10] \<rparr>)) =
   updatePreview fixed_pitch initial_customizations (Some sample_ad) ''desktop''
     (Some fresh_canvas)"
  using updatePreview_idempotent [of fixed_pitch initial_customizations "Some sample_ad"
      "''desktop''" None "fresh_canvas\<lparr> bitmap := [FillRect default_state 0 0 10 10] \<rparr>"
      fresh_canvas sample_ad]
  by (simp add: fresh_canvas_def)

text \<open>
  Claim C2, as stated, fails. For the scenario (the initial customizations, the sample
  ad, the desktop surface) no text is drawn at (20, 44) or (20, 100), and no rectangle is
  filled at (20, 340, 120, 40).
\<close>

theorem standard_scenario_counterexample:
  "(''Save Today'', 20, 44) \<notin> set (text_draws (rendered (updatePreview fixed_pitch
       initial_customizations (Some sample_ad) ''desktop'' (Some fresh_canvas)))) \<and>
   (''Get 20% off'', 20, 100) \<notin> set (text_draws (rendered (updatePreview fixed_pitch
       initial_customizations (Some sample_ad) ''desktop'' (Some fresh_canvas)))) \<and>
   (Color ''#007bff'', 20, 340, 120, 40) \<notin> set (rect_fills (rendered (updatePreview fixed_pitch
       initial_customizations (Some sample_ad) ''desktop'' (Some fresh_canvas))))"
proof -
  have "context2d fresh_canvas" and "getCanvasDimensions ''desktop'' = (600, 400)"
    by (simp_all add: fresh_canvas_def getCanvasDimensions_def)
  from updatePreview_bitmap [OF this, of fixed_pitch initial_customizations sample_ad]
  show ?thesis
    by (simp add: initial_customizations_def sample_ad_def calculateLayout_def Let_def
        getContentVariation_def js_index_def js_or_def wrapText_def draw_state_simps)
qed

text \<open>
  Claim C2, amended. With content {headline: "Save Today", description: "Get 20% off",
  callToAction: "Shop Now"}, layout standard, padding 20, font size 16, background
  #ffffff, text colour #000000 and accent #007bff, the three variation indices 0, on the
  600 by 400 surface: the layout puts the headline at (20, 60) and the description at
  (20, 120), both with maxWidth 560, and the button at (20, 330, 120, 40). The render
  draws the first headline line at (20, 60), the first description line at (20, 120),
  the button label last, and fills the background, the gradient and the button rectangle
  at x = 20, y = 330 with width 120 and height 40.
\<close>

theorem standard_scenario_amended:
  assumes "context2d c"
    and "layout cz = ''standard''" and "padding cz = 20" and "fontSize cz = 16"
    and "backgroundColor cz = ''#ffffff''" and "textColor cz = ''#000000''"
    and "accentColor cz = ''#007bff''"
    and "headlineVariation cz = 0" and "descriptionVariation cz = 0" and "ctaVariation cz = 0"
    and "content selected = \<lparr> headline = ''Save Today'', description = ''Get 20% off'',
                               callToAction = ''Shop Now'' \<rparr>"
    and "hs = wrapText (m (Font True 20 (fontFamily cz))) ''Save Today'' 560"
    and "ds = wrapText (m (Font False 16 (fontFamily cz))) ''Get 20% off'' 560"
    and "R = rendered (updatePreview m cz (Some selected) ''desktop'' (Some c))"
  shows "calculateLayout cz 600 400 =
           \<lparr> headline_region = \<lparr> x = 20, y = 60, maxWidth = 560 \<rparr>,
             description_region = \<lparr> x = 20, y = 120, maxWidth = 560 \<rparr>,
             cta_region = \<lparr> cta_x = 20, cta_y = 330, cta_width = 120, cta_height = 40 \<rparr> \<rparr> \<and>
         text_draws R ! 0 = (hd hs, 20, 60) \<and>
         text_draws R ! length hs = (hd ds, 20, 120) \<and>
         last (text_draws R) = (''Shop Now'', 80, 350 + 16 / 3) \<and>
         rect_fills R =
           [(Color ''#ffffff'', 0, 0, 600, 400),
            (Gradient (LinearGradient 0 0 600 400 [(0, ''#ffffff''), (1, ''#007bff20'')]),
             0, 0, 600, 400),
            (Color ''#007bff'', 20, 330, 120, 40)]"
proof -
  have lay: "calculateLayout cz 600 400 =
           \<lparr> headline_region = \<lparr> x = 20, y = 60, maxWidth = 560 \<rparr>,
             description_region = \<lparr> x = 20, y = 120, maxWidth = 560 \<rparr>,
             cta_region = \<lparr> cta_x = 20, cta_y = 330, cta_width = 120, cta_height = 40 \<rparr> \<rparr>"
    using assms(2,3) by (simp add: calculateLayout_def Let_def)
  have dims: "getCanvasDimensions ''desktop'' = (600, 400)"
    by (simp add: getCanvasDimensions_def)
  have vars: "getContentVariation cz Headline ''Save Today'' = ''Save Today''"
    "getContentVariation cz Description ''Get 20% off'' = ''Get 20% off''"
    "getContentVariation cz Cta ''Shop Now'' = ''Shop Now''"
    using assms(8,9,10) by (simp_all add: getContentVariation_def js_index_def js_or_def)
  have hs: "hs \<noteq> []" and ds: "ds \<noteq> []"
    using assms(12,13) by (simp_all add: wrapText_not_Nil)
  have R: "text_draws R =
      text_draws (line_paints
        (draw_state (Color ''#000000'') (Font True 20 (fontFamily cz)) (textAlignment cz)
           (if borderRadius cz > 0 then [roundRect_path 0 0 600 400 (borderRadius cz)] else []))
        20 60 21 0 hs) @
      text_draws (line_paints
        (draw_state (Color ''#000000'') (Font False 16 (fontFamily cz)) (textAlignment cz)
           (if borderRadius cz > 0 then [roundRect_path 0 0 600 400 (borderRadius cz)] else []))
        20 120 21 0 ds) @
      [(''Shop Now'', 80, 350 + 16 / 3)]"
    using assms(4,5,6,7,11,12,13)
    by (simp add: assms(14) updatePreview_bitmap [OF assms(1) dims] lay vars text_draws_append)
  have a: "text_draws R ! 0 = (hd hs, 20, 60)"
    using hs by (cases hs) (simp_all add: R)
  have b: "text_draws R ! length hs = (hd ds, 20, 120)"
    using ds by (cases ds) (simp_all add: R nth_append length_text_draws_line_paints)
  have c: "last (text_draws R) = (''Shop Now'', 80, 350 + 16 / 3)"
    by (simp add: R)
  have d: "rect_fills R =
           [(Color ''#ffffff'', 0, 0, 600, 400),
            (Gradient (LinearGradient 0 0 600 400 [(0, ''#ffffff''), (1, ''#007bff20'')]),
             0, 0, 600, 400),
            (Color ''#007bff'', 20, 330, 120, 40)]"
    using assms(5,6,7)
    by (simp add: assms(14) updatePreview_bitmap [OF assms(1) dims] lay rect_fills_append
        rect_fills_line_paints draw_state_simps)
  from lay a b c d show ?thesis by blast
qed

theorem standard_scenario_amended_witness:
  "context2d fresh_canvas \<and> layout initial_customizations = ''standard'' \<and>
   padding initial_customizations = 20 \<and> fontSize initial_customizations = 16 \<and>
   backgroundColor initial_customizations = ''#ffffff'' \<and>
   textColor initial_customizations = ''#000000'' \<and>
   accentColor initial_customizations = ''#007bff'' \<and>
   headlineVariation initial_customizations = 0 \<and>
   descriptionVariation initial_customizations = 0 \<and>
   ctaVariation initial_customizations = 0 \<and>
   content sample_ad = \<lparr> headline = ''Save Today'', description = ''Get 20% off'',
                          callToAction = ''Shop Now'' \<rparr> \<and>
   wrapText (fixed_pitch (Font True 20 ''Inter'')) ''Save Today'' 560 = [''Save Today''] \<and>
   wrapText (fixed_pitch (Font False 16 ''Inter'')) ''Get 20% off'' 560 = [''Get 20% off''] \<and>
   text_draws (rendered (updatePreview fixed_pitch initial_customizations (Some sample_ad)
      ''desktop'' (Some fresh_canvas))) ! 0 = (''Save Today'', 20, 60) \<and>
   text_draws (rendered (updatePreview fixed_pitch initial_customizations (Some sample_ad)
      ''desktop'' (Some fresh_canvas))) ! 1 = (''Get 20% off'', 20, 120)"
  using standard_scenario_amended [where c = fresh_canvas and cz = initial_customizations
      and selected = sample_ad and m = fixed_pitch
      and hs = "wrapText (fixed_pitch (Font True 20 ''Inter'')) ''Save Today'' 560"
      and ds = "wrapText (fixed_pitch (Font False 16 ''Inter'')) ''Get 20% off'' 560"
      and R = "rendered (updatePreview fixed_pitch initial_customizations (Some sample_ad)
      ''desktop'' (Some fresh_canvas))"]
  by (simp add: fresh_canvas_def initial_customizations_def sample_ad_def wrapText_def)

text \<open>
  Claim C8, as stated, fails. On the mobile surface with the centered layout and the
  initial text alignment, the headline is drawn at x = 160, but with the alignment left,
  not center: the render takes the alignment from the text-alignment control, whatever
  the layout.
\<close>

theorem centered_mobile_counterexample:
  "(''Save Today'', ''center'') \<notin> set (text_aligns (rendered (updatePreview fixed_pitch
       (initial_customizations\<lparr> layout := ''centered'' \<rparr>) (Some sample_ad) ''mobile''
       (Some fresh_canvas)))) \<and>
   (''Save Today'', ''left'') \<in> set (text_aligns (rendered (updatePreview fixed_pitch
       (initial_customizations\<lparr> layout := ''centered'' \<rparr>) (Some sample_ad) ''mobile''
       (Some fresh_canvas)))) \<and>
   (''Save Today'', 160, 60) \<in> set (text_draws (rendered (updatePreview fixed_pitch
       (initial_customizations\<lparr> layout := ''centered'' \<rparr>) (Some sample_ad) ''mobile''
       (Some fresh_canvas))))"
proof -
  have "context2d fresh_canvas" and "getCanvasDimensions ''mobile'' = (320, 400)"
    by (simp_all add: fresh_canvas_def getCanvasDimensions_def)
  from updatePreview_bitmap [OF this, of fixed_pitch
      "initial_customizations\<lparr> layout := ''centered'' \<rparr>" sample_ad]
  show ?thesis
    by (simp add: initial_customizations_def sample_ad_def calculateLayout_def Let_def
        getContentVariation_def js_index_def js_or_def wrapText_def draw_state_simps)
qed

text \<open>
  Claim C8, amended. On the mobile surface (320 by 400) with the centered layout, the
  computed headline and description x-coordinates both equal 160, every text of the
  render is anchored at x = 160, the headline and description lines are drawn with the
  alignment chosen in the customizations (center only when that control is set to
  center), the button label is drawn with center alignment, and the CTA rectangle is
  horizontally centered with x = 160 - 60 = 100 and width 120.
\<close>

theorem centered_mobile_amended:
  assumes "context2d c" and "layout cz = ''centered''"
    and "R = rendered (updatePreview m cz (Some selected) ''mobile'' (Some c))"
  shows "getCanvasDimensions ''mobile'' = (320, 400) \<and>
         x (headline_region (calculateLayout cz 320 400)) = 160 \<and>
         x (description_region (calculateLayout cz 320 400)) = 160 \<and>
         cta_x (cta_region (calculateLayout cz 320 400)) = 100 \<and>
         cta_width (cta_region (calculateLayout cz 320 400)) = 120 \<and>
         list_all (\<lambda>d. fst (snd d) = 160) (text_draws R) \<and>
         list_all (\<lambda>a. snd a = textAlignment cz) (butlast (text_aligns R)) \<and>
         last (text_aligns R) =
           (getContentVariation cz Cta (callToAction (content selected)), ''center'') \<and>
         last (rect_fills R) = (Color (accentColor cz), 100, 400 - padding cz - 50, 120, 40)"
proof -
  have dims: "getCanvasDimensions ''mobile'' = (320, 400)"
    by (simp add: getCanvasDimensions_def)
  have lay: "x (headline_region (calculateLayout cz 320 400)) = 160"
    "x (description_region (calculateLayout cz 320 400)) = 160"
    "cta_x (cta_region (calculateLayout cz 320 400)) = 100"
    "cta_y (cta_region (calculateLayout cz 320 400)) = 400 - padding cz - 50"
    "cta_width (cta_region (calculateLayout cz 320 400)) = 120"
    "cta_height (cta_region (calculateLayout cz 320 400)) = 40"
    using assms(2) by (simp_all add: calculateLayout_def Let_def)
  have a: "list_all (\<lambda>d. fst (snd d) = 160) (text_draws R)"
    using text_draws_line_paints_x [where tx = 160]
    by (simp add: assms(3) updatePreview_bitmap [OF assms(1) dims] lay text_draws_append)
  have b: "list_all (\<lambda>a. snd a = textAlignment cz) (butlast (text_aligns R))"
    using text_aligns_line_paints
      [where st = "draw_state (Color (textColor cz)) (Font True (fontSize cz + 4) (fontFamily cz))
          (textAlignment cz)
          (if borderRadius cz > 0 then [roundRect_path 0 0 320 400 (borderRadius cz)] else [])"]
      text_aligns_line_paints
      [where st = "draw_state (Color (textColor cz)) (Font False (fontSize cz) (fontFamily cz))
          (textAlignment cz)
          (if borderRadius cz > 0 then [roundRect_path 0 0 320 400 (borderRadius cz)] else [])"]
    by (simp add: assms(3) updatePreview_bitmap [OF assms(1) dims] lay text_aligns_append
        butlast_append draw_state_simps)
  have c: "last (text_aligns R) =
           (getContentVariation cz Cta (callToAction (content selected)), ''center'')"
    by (simp add: assms(3) updatePreview_bitmap [OF assms(1) dims] text_aligns_append
        draw_state_simps)
  have d: "last (rect_fills R) = (Color (accentColor cz), 100, 400 - padding cz - 50, 120, 40)"
    by (simp add: assms(3) updatePreview_bitmap [OF assms(1) dims] lay rect_fills_append
        rect_fills_line_paints draw_state_simps)
  from dims lay a b c d show ?thesis by blast
qed

theorem centered_mobile_amended_witness:
  "context2d fresh_canvas \<and>
   layout (initial_customizations\<lparr> layout := ''centered'', textAlignment := ''right'' \<rparr>) = ''centered'' \<and>
   text_aligns (rendered (updatePreview fixed_pitch
      (initial_customizations\<lparr> layout := ''centered'', textAlignment := ''right'' \<rparr>)
      (Some sample_ad) ''mobile'' (Some fresh_canvas))) =
     [(''Save Today'', ''right''), (''Get 20% off'', ''right''), (''Shop Now'', ''center'')] \<and>
   last (rect_fills (rendered (updatePreview fixed_pitch
      (initial_customizations\<lparr> layout := ''centered'', textAlignment := ''right'' \<rparr>)
      (Some sample_ad) ''mobile'' (Some fresh_canvas)))) = (Color ''#007bff'', 100, 330, 120, 40)"
proof -
  have "context2d fresh_canvas" and "getCanvasDimensions ''mobile'' = (320, 400)"
    by (simp_all add: fresh_canvas_def getCanvasDimensions_def)
  from updatePreview_bitmap [OF this, of fixed_pitch
      "initial_customizations\<lparr> layout := ''centered'', textAlignment := ''right'' \<rparr>" sample_ad]
    centered_mobile_amended [where c = fresh_canvas
      and cz = "initial_customizations\<lparr> layout := ''centered'', textAlignment := ''right'' \<rparr>"
      and selected = sample_ad and m = fixed_pitch
      and R = "rendered (updatePreview fixed_pitch
      (initial_customizations\<lparr> layout := ''centered'', textAlignment := ''right'' \<rparr>)
      (Some sample_ad) ''mobile'' (Some fresh_canvas))"]
  show ?thesis
    by (simp add: initial_customizations_def sample_ad_def calculateLayout_def Let_def
        getContentVariation_def js_index_def js_or_def wrapText_def draw_state_simps
        fresh_canvas_def)
qed

end
